theory Spec2Isabelle
  imports Complex_Main "HOL-Library.AList"
begin

section \<open>Numbers and column types\<close>

text \<open>
  The schema (\<^verbatim>\<open>initialize_database\<close> in stock_app3.py, \<^verbatim>\<open>setup_database\<close> in
  setup_database.py) declares every money column as \<^verbatim>\<open>DECIMAL(15,2)\<close> and every share
  count as \<^verbatim>\<open>INTEGER\<close>. A \<^verbatim>\<open>DECIMAL(15,2)\<close> value is a fixed-point number: it is held
  here as its count of hundredths, an integer of at most 15 digits. A number assigned to
  such a column is rounded to two places, ties away from zero, and rejected when it does
  not fit.

  The Python side computes with floats. They are modelled by exact rationals: the
  rounding error of one float operation is far below the half cent at which the column
  rounds.
\<close>

type_synonym decimal2 = int

datatype db_error =
    NumericOverflow
  | DivisionByZero
  | IntegerOutOfRange
  | ForeignKeyViolation
  | OperationalError

definition round_half_away :: "rat \<Rightarrow> int" where
  "round_half_away x = (if 0 \<le> x then \<lfloor>x + 1 / 2\<rfloor> else - \<lfloor>- x + 1 / 2\<rfloor>)"

definition to_decimal2 :: "rat \<Rightarrow> db_error + decimal2" where
  "to_decimal2 x =
     (let c = round_half_away (x * 100)
      in if \<bar>c\<bar> < 10 ^ 15 then Inr c else Inl NumericOverflow)"

text \<open>\<^verbatim>\<open>float(cash)\<close>: the value of a stored decimal on the Python side.\<close>

definition dec_float :: "decimal2 \<Rightarrow> rat" where
  "dec_float c = of_int c / 100"

definition to_int4 :: "int \<Rightarrow> db_error + int" where
  "to_int4 n = (if - (2 ^ 31) \<le> n \<and> n < 2 ^ 31 then Inr n else Inl IntegerOutOfRange)"

section \<open>The tables\<close>

text \<open>
  One record per table row, with the columns the ledger code reads or writes. The
  \<^verbatim>\<open>SERIAL\<close> ids of holdings and orders and the timestamp columns are left out: the
  tables are lists in insertion order, so the newest order is the last one.
\<close>

record portfolio_row =
  p_id :: nat
  p_user_id :: nat
  p_cash :: decimal2
  p_total_value :: decimal2

record holding_row =
  h_portfolio_id :: nat
  h_symbol :: string
  h_company_name :: string
  h_shares :: int
  h_avg_price :: decimal2
  h_total_invested :: decimal2

record order_row =
  o_portfolio_id :: nat
  o_symbol :: string
  o_company_name :: string
  o_action :: string
  o_shares :: int
  o_price :: decimal2
  o_total :: decimal2
  o_profit_loss :: "decimal2 option"

record db =
  users_tbl :: "nat list"
  portfolios_tbl :: "portfolio_row list"
  holdings_tbl :: "holding_row list"
  orders_tbl :: "order_row list"

section \<open>Connections and faults\<close>

text \<open>
  Every database call of the source sits in a \<^verbatim>\<open>try\<close> block, and
  \<^verbatim>\<open>get_db_connection\<close> returns \<^verbatim>\<open>None\<close> when connecting fails. A \<open>fault\<close> says what
  the storage does to one connection: nothing, refuse the connection, or raise at the
  \<open>i\<close>-th \<^verbatim>\<open>cur.execute\<close> (counted from 0) issued on it, which stands for a lost
  connection or any other error of the driver or the server that the model does not
  compute itself.

  \<^verbatim>\<open>get_db_connection\<close> sets \<^verbatim>\<open>conn.autocommit = True\<close> on every connection it returns.
  In that mode each statement is committed as it is executed, and \<^verbatim>\<open>conn.commit()\<close>
  and \<^verbatim>\<open>conn.rollback()\<close> have nothing left to do.
\<close>

datatype fault = NoFault | ConnectFails | ExecuteRaises nat

record connection =
  autocommit :: bool

definition get_db_connection :: "fault \<Rightarrow> connection option" where
  "get_db_connection f =
     (if f = ConnectFails then None else Some \<lparr>autocommit = True\<rparr>)"

text \<open>
  \<open>rollback conn begin current\<close>: the committed state after \<^verbatim>\<open>conn.rollback()\<close>, where
  \<open>begin\<close> is the state when the connection was opened and \<open>current\<close> the state the
  statements executed so far have produced.
\<close>

definition rollback :: "connection \<Rightarrow> db \<Rightarrow> db \<Rightarrow> db" where
  "rollback conn begin current = (if autocommit conn then current else begin)"

definition execute :: "fault \<Rightarrow> nat \<Rightarrow> (db \<Rightarrow> db_error + db) \<Rightarrow> db \<Rightarrow> db_error + db" where
  "execute f i stmt d = (if f = ExecuteRaises i then Inl OperationalError else stmt d)"

section \<open>The statements\<close>

text \<open>\<^verbatim>\<open>SELECT id, cash FROM portfolios WHERE user_id = %s\<close>, then \<^verbatim>\<open>fetchone()\<close>.\<close>

definition select_portfolio :: "db \<Rightarrow> nat \<Rightarrow> portfolio_row option" where
  "select_portfolio d user_id = find (\<lambda>r. p_user_id r = user_id) (portfolios_tbl d)"

definition select_holdings :: "db \<Rightarrow> nat \<Rightarrow> holding_row list" where
  "select_holdings d pid = filter (\<lambda>r. h_portfolio_id r = pid) (holdings_tbl d)"

text \<open>\<^verbatim>\<open>... FROM orders WHERE portfolio_id = %s ORDER BY timestamp DESC LIMIT 50\<close>.\<close>

definition select_recent_orders :: "db \<Rightarrow> nat \<Rightarrow> order_row list" where
  "select_recent_orders d pid =
     take 50 (rev (filter (\<lambda>r. o_portfolio_id r = pid) (orders_tbl d)))"

text \<open>
  \<^verbatim>\<open>INSERT INTO portfolios (user_id) VALUES (%s) RETURNING id\<close>: the id is a fresh one,
  cash and total value take the column default 100000.00, and \<^verbatim>\<open>user_id\<close> must
  reference a user.
\<close>

definition fresh_portfolio_id :: "db \<Rightarrow> nat" where
  "fresh_portfolio_id d = Suc (fold max (map p_id (portfolios_tbl d)) 0)"

definition insert_portfolio :: "db \<Rightarrow> nat \<Rightarrow> db_error + (nat \<times> db)" where
  "insert_portfolio d user_id =
     (if user_id \<in> set (users_tbl d)
      then let pid = fresh_portfolio_id d
           in Inr (pid, d\<lparr>portfolios_tbl := portfolios_tbl d @
                 [\<lparr>p_id = pid, p_user_id = user_id, p_cash = 10000000,
                   p_total_value = 10000000\<rparr>]\<rparr>)
      else Inl ForeignKeyViolation)"

text \<open>\<^verbatim>\<open>UPDATE portfolios SET cash = %s, ... WHERE id = %s\<close>.\<close>

definition update_cash :: "nat \<Rightarrow> rat \<Rightarrow> db \<Rightarrow> db_error + db" where
  "update_cash pid new_cash d =
     (case to_decimal2 new_cash of
        Inl e \<Rightarrow> Inl e
      | Inr c \<Rightarrow>
          Inr (d\<lparr>portfolios_tbl :=
                 map (\<lambda>r. if p_id r = pid then r\<lparr>p_cash := c\<rparr> else r) (portfolios_tbl d)\<rparr>))"


text \<open>
  An \<^verbatim>\<open>UPDATE\<close> of the rows that satisfy \<open>P\<close>: the statement fails as a whole, changing
  nothing, when the new value of one row cannot be computed.
\<close>

fun update_where :: "('r \<Rightarrow> bool) \<Rightarrow> ('r \<Rightarrow> db_error + 'r) \<Rightarrow> 'r list \<Rightarrow> db_error + 'r list" where
  "update_where P f [] = Inr []"
| "update_where P f (r # rs) =
     (if P r
      then (case f r of
              Inl e \<Rightarrow> Inl e
            | Inr r' \<Rightarrow>
                (case update_where P f rs of Inl e \<Rightarrow> Inl e | Inr rs' \<Rightarrow> Inr (r' # rs')))
      else (case update_where P f rs of Inl e \<Rightarrow> Inl e | Inr rs' \<Rightarrow> Inr (r # rs')))"

text \<open>
  The buy's update of an existing holding,
  \<^verbatim>\<open>SET shares = shares + %s, total_invested = total_invested + %s,
      avg_price = (total_invested + %s) / (shares + %s)\<close>
  with the parameters \<^verbatim>\<open>(shares, total_cost, total_cost, shares)\<close>. Every right-hand
  side reads the row as it was before the statement.
\<close>

definition buy_update_row :: "int \<Rightarrow> rat \<Rightarrow> holding_row \<Rightarrow> db_error + holding_row" where
  "buy_update_row shares total_cost r =
     (case to_int4 (h_shares r + shares) of
        Inl e \<Rightarrow> Inl e
      | Inr n \<Rightarrow>
         (case to_decimal2 (dec_float (h_total_invested r) + total_cost) of
            Inl e \<Rightarrow> Inl e
          | Inr ti \<Rightarrow>
             (if h_shares r + shares = 0 then Inl DivisionByZero
              else (case to_decimal2 ((dec_float (h_total_invested r) + total_cost)
                                       / of_int (h_shares r + shares)) of
                      Inl e \<Rightarrow> Inl e
                    | Inr ap \<Rightarrow>
                        Inr (r\<lparr>h_shares := n, h_total_invested := ti, h_avg_price := ap\<rparr>)))))"

definition holding_matches :: "nat \<Rightarrow> string \<Rightarrow> holding_row \<Rightarrow> bool" where
  "holding_matches pid symbol r \<longleftrightarrow> h_portfolio_id r = pid \<and> h_symbol r = symbol"

definition update_holding_buy :: "nat \<Rightarrow> string \<Rightarrow> int \<Rightarrow> rat \<Rightarrow> db \<Rightarrow> db_error + db" where
  "update_holding_buy pid symbol shares total_cost d =
     (case update_where (holding_matches pid symbol) (buy_update_row shares total_cost)
             (holdings_tbl d) of
        Inl e \<Rightarrow> Inl e
      | Inr hs \<Rightarrow> Inr (d\<lparr>holdings_tbl := hs\<rparr>))"

definition portfolio_exists :: "db \<Rightarrow> nat \<Rightarrow> bool" where
  "portfolio_exists d pid \<longleftrightarrow> list_ex (\<lambda>r. p_id r = pid) (portfolios_tbl d)"

text \<open>
  \<^verbatim>\<open>INSERT INTO holdings (portfolio_id, symbol, company_name, shares, avg_price,
  total_invested) VALUES (...)\<close> with \<^verbatim>\<open>(portfolio_id, symbol, company_name, shares, price,
  total_cost)\<close>.
\<close>

definition insert_holding ::
  "nat \<Rightarrow> string \<Rightarrow> string \<Rightarrow> int \<Rightarrow> rat \<Rightarrow> rat \<Rightarrow> db \<Rightarrow> db_error + db" where
  "insert_holding pid symbol company_name shares price total_cost d =
     (case to_int4 shares of
        Inl e \<Rightarrow> Inl e
      | Inr n \<Rightarrow>
         (case to_decimal2 price of
            Inl e \<Rightarrow> Inl e
          | Inr ap \<Rightarrow>
             (case to_decimal2 total_cost of
                Inl e \<Rightarrow> Inl e
              | Inr ti \<Rightarrow>
                 (if portfolio_exists d pid
                  then Inr (d\<lparr>holdings_tbl := holdings_tbl d @
                          [\<lparr>h_portfolio_id = pid, h_symbol = symbol,
                            h_company_name = company_name, h_shares = n,
                            h_avg_price = ap, h_total_invested = ti\<rparr>]\<rparr>)
                  else Inl ForeignKeyViolation))))"

text \<open>The sell's \<^verbatim>\<open>DELETE FROM holdings WHERE portfolio_id = %s AND symbol = %s\<close>.\<close>

definition delete_holding :: "nat \<Rightarrow> string \<Rightarrow> db \<Rightarrow> db_error + db" where
  "delete_holding pid symbol d =
     Inr (d\<lparr>holdings_tbl := filter (\<lambda>r. \<not> holding_matches pid symbol r) (holdings_tbl d)\<rparr>)"

text \<open>The sell's \<^verbatim>\<open>UPDATE holdings SET shares = %s, total_invested = %s, ...\<close>.\<close>

definition update_holding_sell :: "nat \<Rightarrow> string \<Rightarrow> int \<Rightarrow> rat \<Rightarrow> db \<Rightarrow> db_error + db" where
  "update_holding_sell pid symbol remaining_shares new_total_invested d =
     (case to_int4 remaining_shares of
        Inl e \<Rightarrow> Inl e
      | Inr n \<Rightarrow>
         (case to_decimal2 new_total_invested of
            Inl e \<Rightarrow> Inl e
          | Inr ti \<Rightarrow>
              Inr (d\<lparr>holdings_tbl :=
                     map (\<lambda>r. if holding_matches pid symbol r
                              then r\<lparr>h_shares := n, h_total_invested := ti\<rparr> else r)
                       (holdings_tbl d)\<rparr>)))"

text \<open>
  \<^verbatim>\<open>INSERT INTO orders (portfolio_id, symbol, company_name, action, shares, price, total
  [, profit_loss]) VALUES (...)\<close>; the buy leaves \<^verbatim>\<open>profit_loss\<close> out, so it is NULL.
\<close>

definition insert_order ::
  "nat \<Rightarrow> string \<Rightarrow> string \<Rightarrow> string \<Rightarrow> int \<Rightarrow> rat \<Rightarrow> rat \<Rightarrow> rat option \<Rightarrow> db
     \<Rightarrow> db_error + db" where
  "insert_order pid symbol company_name action shares price total_amount profit_loss d =
     (case to_int4 shares of
        Inl e \<Rightarrow> Inl e
      | Inr n \<Rightarrow>
         (case to_decimal2 price of
            Inl e \<Rightarrow> Inl e
          | Inr pr \<Rightarrow>
             (case to_decimal2 total_amount of
                Inl e \<Rightarrow> Inl e
              | Inr tot \<Rightarrow>
                 (case (case profit_loss of
                          None \<Rightarrow> Inr None
                        | Some x \<Rightarrow>
                            (case to_decimal2 x of Inl e \<Rightarrow> Inl e | Inr c \<Rightarrow> Inr (Some c))) of
                    Inl e \<Rightarrow> Inl e
                  | Inr pl \<Rightarrow>
                     (if portfolio_exists d pid
                      then Inr (d\<lparr>orders_tbl := orders_tbl d @
                              [\<lparr>o_portfolio_id = pid, o_symbol = symbol,
                                o_company_name = company_name, o_action = action,
                                o_shares = n, o_price = pr, o_total = tot,
                                o_profit_loss = pl\<rparr>]\<rparr>)
                      else Inl ForeignKeyViolation)))))"

section \<open>get_user_portfolio\<close>

text \<open>The dictionaries the function returns, with the keys of the source (those of a
  holding prefixed with \<open>hold_\<close>, those of an order with \<open>ord_\<close>).\<close>

record holding =
  hold_shares :: int
  hold_avg_price :: rat
  hold_total_invested :: rat
  hold_company_name :: string

record order =
  ord_symbol :: string
  ord_company_name :: string
  ord_action :: string
  ord_shares :: int
  ord_price :: rat
  ord_total :: rat
  ord_profit_loss :: "rat option"

record portfolio =
  cash :: rat
  holdings :: "(string \<times> holding) list"
  orders :: "order list"
  portfolio_id :: nat

definition default_portfolio :: portfolio where
  "default_portfolio = \<lparr>cash = 100000, holdings = [], orders = [], portfolio_id = 0\<rparr>"

text \<open>
  \<^verbatim>\<open>for row in holdings_rows: holdings[symbol] = {...}\<close>: a dictionary keeps one entry
  per key, at the place of its first insertion, with the value assigned last.
\<close>

definition holding_of_row :: "holding_row \<Rightarrow> holding" where
  "holding_of_row r =
     \<lparr>hold_shares = h_shares r, hold_avg_price = dec_float (h_avg_price r),
      hold_total_invested = dec_float (h_total_invested r),
      hold_company_name = h_company_name r\<rparr>"

definition holdings_dict :: "holding_row list \<Rightarrow> (string \<times> holding) list" where
  "holdings_dict rows = fold (\<lambda>r acc. AList.update (h_symbol r) (holding_of_row r) acc) rows []"

text \<open>
  \<^verbatim>\<open>'profit_loss': float(profit_loss) if profit_loss else None\<close>: a stored zero is
  falsy, so it is read back as \<^verbatim>\<open>None\<close> too.
\<close>

definition order_of_row :: "order_row \<Rightarrow> order" where
  "order_of_row r =
     \<lparr>ord_symbol = o_symbol r, ord_company_name = o_company_name r,
      ord_action = o_action r, ord_shares = o_shares r,
      ord_price = dec_float (o_price r), ord_total = dec_float (o_total r),
      ord_profit_loss =
        (case o_profit_loss r of
           None \<Rightarrow> None
         | Some c \<Rightarrow> if c = 0 then None else Some (dec_float c))\<rparr>"

text \<open>
  The function returns a dictionary on every path, never \<^verbatim>\<open>None\<close>: the default one when
  no connection is made or a statement raises. Its statements are numbered 0 (the
  portfolio), then 1 and 2 (holdings, orders) when a portfolio row was found, or 1 (the
  insert) when none was.
\<close>

definition get_user_portfolio :: "fault \<Rightarrow> db \<Rightarrow> nat \<Rightarrow> portfolio option \<times> db" where
  "get_user_portfolio f d user_id =
     (case get_db_connection f of
        None \<Rightarrow> (Some default_portfolio, d)
      | Some conn \<Rightarrow>
         (if f = ExecuteRaises 0 then (Some default_portfolio, d)
          else (case select_portfolio d user_id of
                  Some row \<Rightarrow>
                    (if f = ExecuteRaises 1 \<or> f = ExecuteRaises 2
                     then (Some default_portfolio, d)
                     else (Some \<lparr>cash = dec_float (p_cash row),
                                 holdings = holdings_dict (select_holdings d (p_id row)),
                                 orders = map order_of_row (select_recent_orders d (p_id row)),
                                 portfolio_id = p_id row\<rparr>, d))
                | None \<Rightarrow>
                    (if f = ExecuteRaises 1 then (Some default_portfolio, d)
                     else (case insert_portfolio d user_id of
                             Inl e \<Rightarrow> (Some default_portfolio, d)
                           | Inr (pid, d') \<Rightarrow>
                               (Some \<lparr>cash = 100000, holdings = [], orders = [],
                                      portfolio_id = pid\<rparr>, d'))))))"

section \<open>calculate_portfolio_value\<close>

text \<open>
  What \<^verbatim>\<open>yf.Ticker(symbol).fast_info.get("last_price", avg_price)\<close> can do for one
  symbol: raise, lack the key, hold \<^verbatim>\<open>None\<close>, or hold a price. The first three all end
  in the holding's average price.
\<close>

datatype quote = FeedRaises | KeyMissing | PriceNone | LastPrice rat




section \<open>update_portfolio_db\<close>

text \<open>
  The function returns a pair of a success flag and a message, or nothing at all when it
  falls off its end. The messages are
  \<^verbatim>\<open>"Portfolio not found"\<close>, \<^verbatim>\<open>"Database connection failed"\<close>, \<^verbatim>\<open>"Insufficient funds"\<close>,
  \<^verbatim>\<open>"Buy order executed"\<close>, \<^verbatim>\<open>"No shares to sell"\<close>, \<^verbatim>\<open>"Insufficient shares"\<close>,
  \<^verbatim>\<open>"Sell order executed (P&L: ...)"\<close> with the profit or loss, and
  \<^verbatim>\<open>"Transaction failed: ..."\<close> with the exception.

  The sell message is built with \<^verbatim>\<open>{profit_loss:.2f}\<close>: the profit or loss appears
  with two decimals, rounded from the exact value of the number, ties to the even digit,
  with a minus sign when the number is negative (also when it then prints as
  \<^verbatim>\<open>-0.00\<close>). What is printed is told by that sign and by the digits, which are
  those of a count of hundredths. The numbers are taken as exact rationals here, as
  everywhere in this theory: a float that is a negative zero, which Python prints with
  the minus sign, has no counterpart among them.
\<close>

definition round_half_even :: "rat \<Rightarrow> int" where
  "round_half_even x =
     (let n = \<lfloor>x\<rfloor>; r = x - of_int n
      in if r < 1 / 2 then n else if 1 / 2 < r then n + 1 else if even n then n else n + 1)"

record two_decimals =
  minus_sign :: bool
  hundredths :: int

definition format_2f :: "rat \<Rightarrow> two_decimals" where
  "format_2f x =
     \<lparr>minus_sign = x < 0, hundredths = round_half_even (\<bar>x\<bar> * 100)\<rparr>"

datatype message =
    PortfolioNotFound
  | DatabaseConnectionFailed
  | InsufficientFunds
  | BuyOrderExecuted
  | NoSharesToSell
  | InsufficientShares
  | SellOrderExecuted two_decimals
  | TransactionFailed db_error

type_synonym outcome = "(bool \<times> message) option"

text \<open>
  The \<^verbatim>\<open>except\<close> branch: \<^verbatim>\<open>conn.rollback()\<close>, then the failure message. \<open>begin\<close> is the
  state at the start of the \<^verbatim>\<open>try\<close> block, \<open>current\<close> the state reached when the
  exception was raised.
\<close>

definition transaction_failed :: "connection \<Rightarrow> db \<Rightarrow> db \<Rightarrow> db_error \<Rightarrow> outcome \<times> db" where
  "transaction_failed conn begin current e =
     (Some (False, TransactionFailed e), rollback conn begin current)"

text \<open>The \<^verbatim>\<open>buy\<close> branch; its statements are numbered 0 to 3.\<close>

definition buy ::
  "fault \<Rightarrow> connection \<Rightarrow> db \<Rightarrow> portfolio \<Rightarrow> string \<Rightarrow> int \<Rightarrow> rat \<Rightarrow> string \<Rightarrow> outcome \<times> db" where
  "buy f conn d portfolio symbol shares price company_name =
     (let total_cost = of_int shares * price
      in if total_cost > cash portfolio then (Some (False, InsufficientFunds), d)
         else
          (let new_cash = cash portfolio - total_cost
           in case execute f 0 (update_cash (portfolio_id portfolio) new_cash) d of
                Inl e \<Rightarrow> transaction_failed conn d d e
              | Inr d1 \<Rightarrow>
                 (if f = ExecuteRaises 1 then transaction_failed conn d d1 OperationalError
                  else
                   (let holding_exists =
                          list_ex (holding_matches (portfolio_id portfolio) symbol)
                            (holdings_tbl d1)
                    in case execute f 2
                              (if holding_exists
                               then update_holding_buy (portfolio_id portfolio) symbol shares
                                      total_cost
                               else insert_holding (portfolio_id portfolio) symbol company_name
                                      shares price total_cost) d1 of
                         Inl e \<Rightarrow> transaction_failed conn d d1 e
                       | Inr d2 \<Rightarrow>
                          (case execute f 3
                                  (insert_order (portfolio_id portfolio) symbol company_name
                                     ''buy'' shares price total_cost None) d2 of
                             Inl e \<Rightarrow> transaction_failed conn d d2 e
                           | Inr d3 \<Rightarrow> (Some (True, BuyOrderExecuted), d3))))))"

text \<open>The \<^verbatim>\<open>sell\<close> branch; its statements are numbered 0 to 2.\<close>

definition sell ::
  "fault \<Rightarrow> connection \<Rightarrow> db \<Rightarrow> portfolio \<Rightarrow> string \<Rightarrow> int \<Rightarrow> rat \<Rightarrow> string \<Rightarrow> outcome \<times> db" where
  "sell f conn d portfolio symbol shares price company_name =
     (case map_of (holdings portfolio) symbol of
        None \<Rightarrow> (Some (False, NoSharesToSell), d)
      | Some holding \<Rightarrow>
         (if hold_shares holding < shares then (Some (False, InsufficientShares), d)
          else
           (let avg_price = hold_avg_price holding;
                profit_loss = (price - avg_price) * of_int shares;
                total_value = of_int shares * price;
                new_cash = cash portfolio + total_value
            in case execute f 0 (update_cash (portfolio_id portfolio) new_cash) d of
                 Inl e \<Rightarrow> transaction_failed conn d d e
               | Inr d1 \<Rightarrow>
                  (let remaining_shares = hold_shares holding - shares
                   in case execute f 1
                             (if remaining_shares = 0
                              then delete_holding (portfolio_id portfolio) symbol
                              else update_holding_sell (portfolio_id portfolio) symbol
                                     remaining_shares (of_int remaining_shares * avg_price)) d1 of
                        Inl e \<Rightarrow> transaction_failed conn d d1 e
                      | Inr d2 \<Rightarrow>
                         (case execute f 2
                                 (insert_order (portfolio_id portfolio) symbol company_name
                                    ''sell'' shares price total_value (Some profit_loss)) d2 of
                            Inl e \<Rightarrow> transaction_failed conn d d2 e
                          | Inr d3 \<Rightarrow>
                             (Some (True, SellOrderExecuted (format_2f profit_loss)), d3))))))"

text \<open>
  \<open>f1\<close> is the fault of the connection \<^verbatim>\<open>get_user_portfolio\<close> opens, \<open>f2\<close> that of the
  function's own connection. With an action that is neither \<^verbatim>\<open>'buy'\<close> nor \<^verbatim>\<open>'sell'\<close>
  the \<^verbatim>\<open>try\<close> block ends without a \<^verbatim>\<open>return\<close>, and so does the function.
\<close>

definition update_portfolio_db ::
  "fault \<Rightarrow> fault \<Rightarrow> db \<Rightarrow> nat \<Rightarrow> string \<Rightarrow> string \<Rightarrow> int \<Rightarrow> rat \<Rightarrow> string \<Rightarrow> outcome \<times> db" where
  "update_portfolio_db f1 f2 d user_id symbol action shares price company_name =
     (case get_user_portfolio f1 d user_id of
        (None, d1) \<Rightarrow> (Some (False, PortfolioNotFound), d1)
      | (Some portfolio, d1) \<Rightarrow>
         (case get_db_connection f2 of
            None \<Rightarrow> (Some (False, DatabaseConnectionFailed), d1)
          | Some conn \<Rightarrow>
             (if action = ''buy''
              then buy f2 conn d1 portfolio symbol shares price company_name
              else if action = ''sell''
              then sell f2 conn d1 portfolio symbol shares price company_name
              else (None, d1))))"

section \<open>States and sequences of calls\<close>

text \<open>
  The store as \<^verbatim>\<open>register_user\<close> leaves it for the first user of an empty database:
  the user's row and, from \<^verbatim>\<open>INSERT INTO portfolios (user_id) VALUES (%s)\<close>, a
  portfolio with the default cash of 100000.00.
\<close>

definition registered_db :: "nat \<Rightarrow> db" where
  "registered_db user_id =
     \<lparr>users_tbl = [user_id],
      portfolios_tbl =
        [\<lparr>p_id = 1, p_user_id = user_id, p_cash = 10000000, p_total_value = 10000000\<rparr>],
      holdings_tbl = [], orders_tbl = []\<rparr>"

text \<open>
  When \<^verbatim>\<open>get_user_portfolio\<close> fails: the connection is refused, one of the statements
  it issues raises (three when the portfolio row is there, two when it has to be
  inserted), or the insert is rejected because the user is unknown.
\<close>

definition storage_failure :: "fault \<Rightarrow> db \<Rightarrow> nat \<Rightarrow> bool" where
  "storage_failure f d user_id =
     (case f of
        NoFault \<Rightarrow> select_portfolio d user_id = None \<and> user_id \<notin> set (users_tbl d)
      | ConnectFails \<Rightarrow> True
      | ExecuteRaises i \<Rightarrow>
          (case select_portfolio d user_id of
             Some row \<Rightarrow> i < 3
           | None \<Rightarrow> i < 2 \<or> user_id \<notin> set (users_tbl d)))"

text \<open>
  The store after the first trade of that user, a buy of 10 shares of ACME at 100.00.
\<close>

definition after_first_buy :: db where
  "after_first_buy =
     snd (update_portfolio_db NoFault NoFault (registered_db 7) 7 ''ACME'' ''buy'' 10 100
           ''Acme Ltd'')"

text \<open>
  A store in which the user's row is there and the portfolio row is not, as
  \<^verbatim>\<open>register_user\<close> leaves it when the second of its two inserts fails: the
  connection commits each statement as it is executed.
\<close>

definition user_without_portfolio :: "nat \<Rightarrow> db" where
  "user_without_portfolio user_id =
     \<lparr>users_tbl = [user_id], portfolios_tbl = [], holdings_tbl = [], orders_tbl = []\<rparr>"


text \<open>
  The rows a trade is expected to leave behind, with every amount rounded the way its
  column rounds: the new row and the updated row of a buy, the updated row of a partial
  sell, and the order row of either.
\<close>

definition new_holding_row :: "nat \<Rightarrow> string \<Rightarrow> string \<Rightarrow> int \<Rightarrow> rat \<Rightarrow> holding_row" where
  "new_holding_row pid symbol company_name shares price =
     \<lparr>h_portfolio_id = pid, h_symbol = symbol, h_company_name = company_name,
      h_shares = shares, h_avg_price = round_half_away (price * 100),
      h_total_invested = round_half_away (of_int shares * price * 100)\<rparr>"

definition holding_after_buy :: "int \<Rightarrow> rat \<Rightarrow> holding_row \<Rightarrow> holding_row" where
  "holding_after_buy shares price r =
     r\<lparr>h_shares := h_shares r + shares,
       h_total_invested :=
         round_half_away ((dec_float (h_total_invested r) + of_int shares * price) * 100),
       h_avg_price :=
         round_half_away ((dec_float (h_total_invested r) + of_int shares * price)
                           / of_int (h_shares r + shares) * 100)\<rparr>"

definition holding_after_sell :: "int \<Rightarrow> decimal2 \<Rightarrow> holding_row \<Rightarrow> holding_row" where
  "holding_after_sell remaining_shares avg r =
     r\<lparr>h_shares := remaining_shares, h_total_invested := remaining_shares * avg\<rparr>"

definition buy_order_row :: "nat \<Rightarrow> string \<Rightarrow> string \<Rightarrow> int \<Rightarrow> rat \<Rightarrow> order_row" where
  "buy_order_row pid symbol company_name shares price =
     \<lparr>o_portfolio_id = pid, o_symbol = symbol, o_company_name = company_name,
      o_action = ''buy'', o_shares = shares, o_price = round_half_away (price * 100),
      o_total = round_half_away (of_int shares * price * 100), o_profit_loss = None\<rparr>"

definition sell_order_row ::
  "nat \<Rightarrow> string \<Rightarrow> string \<Rightarrow> int \<Rightarrow> rat \<Rightarrow> rat \<Rightarrow> order_row" where
  "sell_order_row pid symbol company_name shares price avg =
     \<lparr>o_portfolio_id = pid, o_symbol = symbol, o_company_name = company_name,
      o_action = ''sell'', o_shares = shares, o_price = round_half_away (price * 100),
      o_total = round_half_away (of_int shares * price * 100),
      o_profit_loss = Some (round_half_away ((price - avg) * of_int shares * 100))\<rparr>"

definition set_cash :: "nat \<Rightarrow> decimal2 \<Rightarrow> portfolio_row list \<Rightarrow> portfolio_row list" where
  "set_cash pid c rows = map (\<lambda>r. if p_id r = pid then r\<lparr>p_cash := c\<rparr> else r) rows"

text \<open>
  A sequence of calls of \<^verbatim>\<open>update_portfolio_db\<close>, each with its arguments and with what
  the storage does to its two connections. \<open>run_trades\<close> makes the calls one after the
  other and returns what each call returned and the store after the last one.
\<close>

record trade =
  t_load_fault :: fault
  t_fault :: fault
  t_user_id :: nat
  t_symbol :: string
  t_action :: string
  t_shares :: int
  t_price :: rat
  t_company_name :: string

definition run_trade :: "db \<Rightarrow> trade \<Rightarrow> outcome \<times> db" where
  "run_trade d t =
     update_portfolio_db (t_load_fault t) (t_fault t) d (t_user_id t) (t_symbol t) (t_action t)
       (t_shares t) (t_price t) (t_company_name t)"

fun run_trades :: "db \<Rightarrow> trade list \<Rightarrow> outcome list \<times> db" where
  "run_trades d [] = ([], d)"
| "run_trades d (t # ts) =
     (case run_trade d t of
        (r, d1) \<Rightarrow> (case run_trades d1 ts of (rs, d2) \<Rightarrow> (r # rs, d2)))"

definition succeeded :: "outcome \<Rightarrow> bool" where
  "succeeded r = (case r of Some (True, m) \<Rightarrow> True | _ \<Rightarrow> False)"


text \<open>
  The sums of the accounting identity, over the rows of one portfolio, in hundredths:
  the totals of its buy orders, the totals of its sell orders, and the total invested of
  its holdings.
\<close>

definition buy_totals :: "db \<Rightarrow> nat \<Rightarrow> int" where
  "buy_totals d pid =
     sum_list (map o_total
       (filter (\<lambda>r. o_portfolio_id r = pid \<and> o_action r = ''buy'') (orders_tbl d)))"

definition sell_totals :: "db \<Rightarrow> nat \<Rightarrow> int" where
  "sell_totals d pid =
     sum_list (map o_total
       (filter (\<lambda>r. o_portfolio_id r = pid \<and> o_action r = ''sell'') (orders_tbl d)))"

definition invested_total :: "db \<Rightarrow> nat \<Rightarrow> int" where
  "invested_total d pid =
     sum_list (map h_total_invested
       (filter (\<lambda>r. h_portfolio_id r = pid) (holdings_tbl d)))"

text \<open>An amount that is a whole number of hundredths.\<close>

definition whole_cents :: "rat \<Rightarrow> bool" where
  "whole_cents x \<longleftrightarrow> of_int \<lfloor>x * 100\<rfloor> = x * 100"

text \<open>
  Two calls by user 7: the buy of 10 shares of ACME at 100.00 and then a sell of 5 of them
  at 150.00; and two calls that end with a sell at a negative price.
\<close>

definition two_trades :: "trade list" where
  "two_trades =
     [\<lparr>t_load_fault = NoFault, t_fault = NoFault, t_user_id = 7, t_symbol = ''ACME'',
       t_action = ''buy'', t_shares = 10, t_price = 100, t_company_name = ''Acme Ltd''\<rparr>,
      \<lparr>t_load_fault = NoFault, t_fault = NoFault, t_user_id = 7, t_symbol = ''ACME'',
       t_action = ''sell'', t_shares = 5, t_price = 150, t_company_name = ''''\<rparr>]"


section \<open>Properties\<close>

subsection \<open>What the loader returns\<close>

lemma get_user_portfolio_Some: "\<exists>p. fst (get_user_portfolio f d user_id) = Some p"
  by (auto simp: get_user_portfolio_def get_db_connection_def
      split: option.splits sum.splits prod.splits)

text \<open>
  C9, as amended. When the storage connection cannot be established or a storage-level
  exception occurs, \<^verbatim>\<open>get_user_portfolio\<close> reports nothing: it returns the default
  portfolio (cash 100000.00, no holdings, no orders, portfolio id 0) and leaves the store
  as it was. In every other case it returns the snapshot read from the store, or the
  portfolio it has just provisioned there.
\<close>

theorem get_user_portfolio_failure_returns_default:
  "(storage_failure f d user_id \<longrightarrow>
      get_user_portfolio f d user_id = (Some default_portfolio, d)) \<and>
   (\<not> storage_failure f d user_id \<longrightarrow>
      (case select_portfolio d user_id of
         Some row \<Rightarrow>
           get_user_portfolio f d user_id =
             (Some \<lparr>cash = dec_float (p_cash row),
                    holdings = holdings_dict (select_holdings d (p_id row)),
                    orders = map order_of_row (select_recent_orders d (p_id row)),
                    portfolio_id = p_id row\<rparr>, d)
       | None \<Rightarrow>
           get_user_portfolio f d user_id =
             (Some \<lparr>cash = 100000, holdings = [], orders = [],
                    portfolio_id = fresh_portfolio_id d\<rparr>,
              d\<lparr>portfolios_tbl := portfolios_tbl d @
                  [\<lparr>p_id = fresh_portfolio_id d, p_user_id = user_id, p_cash = 10000000,
                    p_total_value = 10000000\<rparr>]\<rparr>)))"
  by (cases f)
     (auto simp: get_user_portfolio_def get_db_connection_def storage_failure_def
         insert_portfolio_def Let_def split: option.splits)

theorem get_user_portfolio_failure_returns_default_witness:
  "storage_failure ConnectFails (registered_db 7) 7 \<and>
   get_user_portfolio ConnectFails (registered_db 7) 7 =
     (Some default_portfolio, registered_db 7) \<and>
   \<not> storage_failure NoFault (registered_db 7) 7 \<and>
   get_user_portfolio NoFault (registered_db 7) 7 =
     (Some \<lparr>cash = 100000, holdings = [], orders = [], portfolio_id = 1\<rparr>,
      registered_db 7)"
  using get_user_portfolio_failure_returns_default [of ConnectFails "registered_db 7" 7]
    get_user_portfolio_failure_returns_default [of NoFault "registered_db 7" 7]
  by (simp add: storage_failure_def registered_db_def select_portfolio_def
      select_holdings_def select_recent_orders_def holdings_dict_def dec_float_def)

text \<open>
  C9 as stated fails: after a buy of 10 shares at 100.00 the store holds cash 99000.00
  and one holding, yet a load whose connection is refused hands the caller a portfolio
  value, with cash 100000.00 and no holdings, that was never read from the store.
\<close>

theorem get_user_portfolio_unavailable_counterexample:
  "fst (get_user_portfolio NoFault
         (snd (update_portfolio_db NoFault NoFault (registered_db 7) 7 ''ACME'' ''buy'' 10 100
                ''Acme Ltd'')) 7) =
     Some \<lparr>cash = 99000,
           holdings = [(''ACME'', \<lparr>hold_shares = 10, hold_avg_price = 100,
                                  hold_total_invested = 1000,
                                  hold_company_name = ''Acme Ltd''\<rparr>)],
           orders = [\<lparr>ord_symbol = ''ACME'', ord_company_name = ''Acme Ltd'',
                      ord_action = ''buy'', ord_shares = 10, ord_price = 100,
                      ord_total = 1000, ord_profit_loss = None\<rparr>],
           portfolio_id = 1\<rparr> \<and>
   fst (get_user_portfolio ConnectFails
         (snd (update_portfolio_db NoFault NoFault (registered_db 7) 7 ''ACME'' ''buy'' 10 100
                ''Acme Ltd'')) 7) =
     Some \<lparr>cash = 100000, holdings = [], orders = [], portfolio_id = 0\<rparr>"
  by code_simp

subsection \<open>An action that is neither buy nor sell\<close>

text \<open>
  C10. With an action string other than \<^verbatim>\<open>'buy'\<close> and \<^verbatim>\<open>'sell'\<close>, and the database
  connection made, \<^verbatim>\<open>update_portfolio_db\<close> returns \<^verbatim>\<open>None\<close> and no pair of a success
  flag and a message. No statement is executed on that path, so no exception can be
  raised on it either.
\<close>

theorem update_portfolio_db_other_action_returns_None:
  assumes "action \<noteq> ''buy''" and "action \<noteq> ''sell''" and "f2 \<noteq> ConnectFails"
  shows "fst (update_portfolio_db f1 f2 d user_id symbol action shares price company_name)
         = None"
  using assms get_user_portfolio_Some [of f1 d user_id]
  by (auto simp: update_portfolio_db_def get_db_connection_def
      split: option.splits prod.splits)

theorem update_portfolio_db_other_action_returns_None_witness:
  "''hold'' \<noteq> ''buy'' \<and> ''hold'' \<noteq> ''sell'' \<and> NoFault \<noteq> ConnectFails \<and>
   fst (update_portfolio_db NoFault NoFault (registered_db 7) 7 ''ACME'' ''hold'' 5 100
         ''Acme Ltd'') = None"
  using update_portfolio_db_other_action_returns_None
    [of "''hold''" NoFault NoFault "registered_db 7" 7 "''ACME''" 5 100 "''Acme Ltd''"]
  by simp

subsection \<open>A failure between the writes\<close>

text \<open>
  C1 does not hold of the code. A buy of 10 shares at 100.00 whose second write, the
  insert of the holding, raises: the \<^verbatim>\<open>except\<close> branch calls \<^verbatim>\<open>conn.rollback()\<close> and
  reports the failure, but the connection is in autocommit mode, so the cash update that
  went before stays. The ledger is left with 1000.00 less cash, no holding and no order.
\<close>

theorem update_portfolio_db_buy_partial_write:
  "update_portfolio_db NoFault (ExecuteRaises 2) (registered_db 7) 7 ''ACME'' ''buy'' 10 100
     ''Acme Ltd'' =
   (Some (False, TransactionFailed OperationalError),
    \<lparr>users_tbl = [7],
     portfolios_tbl =
       [\<lparr>p_id = 1, p_user_id = 7, p_cash = 9900000, p_total_value = 10000000\<rparr>],
     holdings_tbl = [], orders_tbl = []\<rparr>)"
  by code_simp

subsection \<open>Facts about the loader and the example states\<close>

lemma after_first_buy_eq:
  "after_first_buy =
     \<lparr>users_tbl = [7],
      portfolios_tbl =
        [\<lparr>p_id = 1, p_user_id = 7, p_cash = 9900000, p_total_value = 10000000\<rparr>],
      holdings_tbl =
        [\<lparr>h_portfolio_id = 1, h_symbol = ''ACME'', h_company_name = ''Acme Ltd'',
          h_shares = 10, h_avg_price = 10000, h_total_invested = 100000\<rparr>],
      orders_tbl =
        [\<lparr>o_portfolio_id = 1, o_symbol = ''ACME'', o_company_name = ''Acme Ltd'',
          o_action = ''buy'', o_shares = 10, o_price = 10000, o_total = 100000,
          o_profit_loss = None\<rparr>]\<rparr>"
  unfolding after_first_buy_def by code_simp

lemma get_user_portfolio_tables:
  assumes "get_user_portfolio f d user_id = (r, d1)"
  shows "holdings_tbl d1 = holdings_tbl d \<and> orders_tbl d1 = orders_tbl d \<and>
         users_tbl d1 = users_tbl d \<and>
         (portfolios_tbl d1 = portfolios_tbl d \<or>
          portfolios_tbl d1 = portfolios_tbl d @
            [\<lparr>p_id = fresh_portfolio_id d, p_user_id = user_id, p_cash = 10000000,
              p_total_value = 10000000\<rparr>])"
  using assms
  by (auto simp: get_user_portfolio_def get_db_connection_def insert_portfolio_def Let_def
      split: option.splits sum.splits prod.splits if_splits)

lemma get_user_portfolio_found:
  assumes "select_portfolio d user_id = Some row"
  shows "get_user_portfolio NoFault d user_id =
     (Some \<lparr>cash = dec_float (p_cash row),
            holdings = holdings_dict (select_holdings d (p_id row)),
            orders = map order_of_row (select_recent_orders d (p_id row)),
            portfolio_id = p_id row\<rparr>, d)"
  using assms by (simp add: get_user_portfolio_def get_db_connection_def)

lemma holdings_dict_snoc:
  "holdings_dict (rows @ [r]) = AList.update (h_symbol r) (holding_of_row r) (holdings_dict rows)"
  by (simp add: holdings_dict_def)

text \<open>The dictionary holds, for a symbol, the last of the rows that carry it.\<close>

lemma map_of_holdings_dict:
  "map_of (holdings_dict rows) symbol =
     (if filter (\<lambda>r. h_symbol r = symbol) rows = [] then None
      else Some (holding_of_row (last (filter (\<lambda>r. h_symbol r = symbol) rows))))"
proof (induction rows rule: rev_induct)
  case Nil
  show ?case by (simp add: holdings_dict_def)
next
  case (snoc r rows)
  then show ?case
    by (simp add: holdings_dict_snoc update_conv')
qed

lemma filter_select_holdings:
  "filter (\<lambda>r. h_symbol r = symbol) (select_holdings d pid) =
   filter (holding_matches pid symbol) (holdings_tbl d)"
  by (auto simp: select_holdings_def holding_matches_def intro: filter_cong)

text \<open>What the loader returns, in each of its three cases.\<close>

lemma get_user_portfolio_outcome:
  "(storage_failure f d user_id \<longrightarrow>
      get_user_portfolio f d user_id = (Some default_portfolio, d)) \<and>
   (\<not> storage_failure f d user_id \<longrightarrow>
      (case select_portfolio d user_id of
         Some row \<Rightarrow>
           get_user_portfolio f d user_id =
             (Some \<lparr>cash = dec_float (p_cash row),
                    holdings = holdings_dict (select_holdings d (p_id row)),
                    orders = map order_of_row (select_recent_orders d (p_id row)),
                    portfolio_id = p_id row\<rparr>, d)
       | None \<Rightarrow>
           get_user_portfolio f d user_id =
             (Some \<lparr>cash = 100000, holdings = [], orders = [],
                    portfolio_id = fresh_portfolio_id d\<rparr>,
              d\<lparr>portfolios_tbl := portfolios_tbl d @
                  [\<lparr>p_id = fresh_portfolio_id d, p_user_id = user_id, p_cash = 10000000,
                    p_total_value = 10000000\<rparr>]\<rparr>)))"
  by (cases f)
     (auto simp: get_user_portfolio_def get_db_connection_def storage_failure_def
         insert_portfolio_def Let_def split: option.splits)

subsection \<open>Rejected sells\<close>

text \<open>
  C7 as stated fails when the storage does not answer, and for a user whose portfolio
  row is missing. With 10 shares of ACME held, a sell of 11 whose load of the portfolio
  meets a raising statement works on the default portfolio, which holds nothing: it fails
  with \<^verbatim>\<open>"No shares to sell"\<close>, not with \<^verbatim>\<open>"Insufficient shares"\<close>. The same sell with
  the function's own connection refused fails with \<^verbatim>\<open>"Database connection failed"\<close>.
  And the sell of a user who has no portfolio row is rejected with
  \<^verbatim>\<open>"No shares to sell"\<close> after the load has inserted one: the store is not the one it
  was.
\<close>

theorem sell_rejected_counterexample:
  "map h_shares (filter (holding_matches 1 ''ACME'') (holdings_tbl after_first_buy)) = [10] \<and>
   update_portfolio_db (ExecuteRaises 0) NoFault after_first_buy 7 ''ACME'' ''sell'' 11 100 '''' =
     (Some (False, NoSharesToSell), after_first_buy) \<and>
   update_portfolio_db NoFault ConnectFails after_first_buy 7 ''ACME'' ''sell'' 11 100 '''' =
     (Some (False, DatabaseConnectionFailed), after_first_buy) \<and>
   update_portfolio_db NoFault NoFault (user_without_portfolio 7) 7 ''ACME'' ''sell'' 1 100 '''' =
     (Some (False, NoSharesToSell),
      \<lparr>users_tbl = [7],
       portfolios_tbl =
         [\<lparr>p_id = 1, p_user_id = 7, p_cash = 10000000, p_total_value = 10000000\<rparr>],
       holdings_tbl = [], orders_tbl = []\<rparr>) \<and>
   portfolios_tbl (user_without_portfolio 7) = []"
  unfolding after_first_buy_eq user_without_portfolio_def by code_simp

text \<open>
  C7, as amended. When the storage answers, that is the load of the portfolio meets no
  failure and the function's own connection is made, and the user has a portfolio row: a
  sell of a symbol for which the portfolio has no holding row fails with
  \<^verbatim>\<open>"No shares to sell"\<close>, a sell of a symbol that is held, for more shares than the
  holding has, fails with \<^verbatim>\<open>"Insufficient shares"\<close>, and in both cases the store after
  the call is the store before it: cash, holdings and orders are untouched. When the
  storage answers and the user has no portfolio row, the sell fails with
  \<^verbatim>\<open>"No shares to sell"\<close> and the store differs from the one before by the portfolio
  row the load has inserted, with the default cash. When the load fails, the sell fails
  with \<^verbatim>\<open>"No shares to sell"\<close> whatever is held, and the store is unchanged. When the
  function's own connection is refused, the sell fails with
  \<^verbatim>\<open>"Database connection failed"\<close> and the store is as the load left it.
\<close>

theorem sell_rejected_leaves_ledger_unchanged:
  "(\<forall>row. \<not> storage_failure f1 d user_id \<and> f2 \<noteq> ConnectFails \<and>
          select_portfolio d user_id = Some row \<longrightarrow>
      (filter (holding_matches (p_id row) symbol) (holdings_tbl d) = [] \<longrightarrow>
         update_portfolio_db f1 f2 d user_id symbol ''sell'' shares price company_name =
           (Some (False, NoSharesToSell), d)) \<and>
      (filter (holding_matches (p_id row) symbol) (holdings_tbl d) \<noteq> [] \<and>
       h_shares (last (filter (holding_matches (p_id row) symbol) (holdings_tbl d))) < shares \<longrightarrow>
         update_portfolio_db f1 f2 d user_id symbol ''sell'' shares price company_name =
           (Some (False, InsufficientShares), d))) \<and>
   (\<not> storage_failure f1 d user_id \<and> f2 \<noteq> ConnectFails \<and>
    select_portfolio d user_id = None \<longrightarrow>
      update_portfolio_db f1 f2 d user_id symbol ''sell'' shares price company_name =
        (Some (False, NoSharesToSell),
         d\<lparr>portfolios_tbl := portfolios_tbl d @
             [\<lparr>p_id = fresh_portfolio_id d, p_user_id = user_id, p_cash = 10000000,
               p_total_value = 10000000\<rparr>]\<rparr>)) \<and>
   (storage_failure f1 d user_id \<and> f2 \<noteq> ConnectFails \<longrightarrow>
      update_portfolio_db f1 f2 d user_id symbol ''sell'' shares price company_name =
        (Some (False, NoSharesToSell), d)) \<and>
   (f2 = ConnectFails \<longrightarrow>
      update_portfolio_db f1 f2 d user_id symbol ''sell'' shares price company_name =
        (Some (False, DatabaseConnectionFailed), snd (get_user_portfolio f1 d user_id)) \<and>
      holdings_tbl (snd (get_user_portfolio f1 d user_id)) = holdings_tbl d \<and>
      orders_tbl (snd (get_user_portfolio f1 d user_id)) = orders_tbl d)"
proof -
  note o = get_user_portfolio_outcome [of f1 d user_id]
  have found: "update_portfolio_db f1 f2 d user_id symbol ''sell'' shares price company_name =
      (Some (False, NoSharesToSell), d)"
    if "\<not> storage_failure f1 d user_id" "f2 \<noteq> ConnectFails"
       "select_portfolio d user_id = Some row"
       "filter (holding_matches (p_id row) symbol) (holdings_tbl d) = []" for row
    using o that
    by (simp add: update_portfolio_db_def get_db_connection_def sell_def map_of_holdings_dict
        filter_select_holdings)
  have short: "update_portfolio_db f1 f2 d user_id symbol ''sell'' shares price company_name =
      (Some (False, InsufficientShares), d)"
    if "\<not> storage_failure f1 d user_id" "f2 \<noteq> ConnectFails"
       "select_portfolio d user_id = Some row"
       "filter (holding_matches (p_id row) symbol) (holdings_tbl d) \<noteq> []"
       "h_shares (last (filter (holding_matches (p_id row) symbol) (holdings_tbl d))) < shares"
    for row
    using o that
    by (simp add: update_portfolio_db_def get_db_connection_def sell_def map_of_holdings_dict
        filter_select_holdings holding_of_row_def)
  have fresh: "update_portfolio_db f1 f2 d user_id symbol ''sell'' shares price company_name =
        (Some (False, NoSharesToSell),
         d\<lparr>portfolios_tbl := portfolios_tbl d @
             [\<lparr>p_id = fresh_portfolio_id d, p_user_id = user_id, p_cash = 10000000,
               p_total_value = 10000000\<rparr>]\<rparr>)"
    if "\<not> storage_failure f1 d user_id" "f2 \<noteq> ConnectFails"
       "select_portfolio d user_id = None"
    using o that
    by (simp add: update_portfolio_db_def get_db_connection_def sell_def)
  have failed: "update_portfolio_db f1 f2 d user_id symbol ''sell'' shares price company_name =
        (Some (False, NoSharesToSell), d)"
    if "storage_failure f1 d user_id" "f2 \<noteq> ConnectFails"
    using o that
    by (simp add: update_portfolio_db_def get_db_connection_def sell_def default_portfolio_def)
  have refused: "update_portfolio_db f1 f2 d user_id symbol ''sell'' shares price company_name =
        (Some (False, DatabaseConnectionFailed), snd (get_user_portfolio f1 d user_id))"
    if "f2 = ConnectFails"
    using that get_user_portfolio_Some [of f1 d user_id]
    by (auto simp: update_portfolio_db_def get_db_connection_def split: prod.splits)
  have tables: "holdings_tbl (snd (get_user_portfolio f1 d user_id)) = holdings_tbl d \<and>
                orders_tbl (snd (get_user_portfolio f1 d user_id)) = orders_tbl d"
    using get_user_portfolio_tables [of f1 d user_id]
    by (cases "get_user_portfolio f1 d user_id") simp
  from found short fresh failed refused tables show ?thesis by blast
qed

theorem sell_rejected_leaves_ledger_unchanged_witness:
  "\<not> storage_failure NoFault after_first_buy 7 \<and>
   select_portfolio after_first_buy 7 =
     Some \<lparr>p_id = 1, p_user_id = 7, p_cash = 9900000, p_total_value = 10000000\<rparr> \<and>
   filter (holding_matches 1 ''XYZ'') (holdings_tbl after_first_buy) = [] \<and>
   update_portfolio_db NoFault NoFault after_first_buy 7 ''XYZ'' ''sell'' 1 100 '''' =
     (Some (False, NoSharesToSell), after_first_buy) \<and>
   filter (holding_matches 1 ''ACME'') (holdings_tbl after_first_buy) \<noteq> [] \<and>
   h_shares (last (filter (holding_matches 1 ''ACME'') (holdings_tbl after_first_buy))) < 11 \<and>
   update_portfolio_db NoFault NoFault after_first_buy 7 ''ACME'' ''sell'' 11 100 '''' =
     (Some (False, InsufficientShares), after_first_buy) \<and>
   storage_failure (ExecuteRaises 0) after_first_buy 7 \<and>
   update_portfolio_db (ExecuteRaises 0) NoFault after_first_buy 7 ''XYZ'' ''sell'' 1 100 '''' =
     (Some (False, NoSharesToSell), after_first_buy) \<and>
   \<not> storage_failure NoFault (user_without_portfolio 7) 7 \<and>
   select_portfolio (user_without_portfolio 7) 7 = None \<and>
   update_portfolio_db NoFault NoFault (user_without_portfolio 7) 7 ''XYZ'' ''sell'' 1 100 '''' =
     (Some (False, NoSharesToSell),
      (user_without_portfolio 7)
        \<lparr>portfolios_tbl :=
           [\<lparr>p_id = 1, p_user_id = 7, p_cash = 10000000, p_total_value = 10000000\<rparr>]\<rparr>) \<and>
   update_portfolio_db NoFault ConnectFails after_first_buy 7 ''XYZ'' ''sell'' 1 100 '''' =
     (Some (False, DatabaseConnectionFailed), after_first_buy)"
proof -
  let ?row = "\<lparr>p_id = 1, p_user_id = 7, p_cash = 9900000, p_total_value = 10000000\<rparr>"
  have row: "select_portfolio after_first_buy 7 = Some ?row"
    by (simp add: after_first_buy_eq select_portfolio_def)
  have answers: "\<not> storage_failure NoFault after_first_buy 7"
    "storage_failure (ExecuteRaises 0) after_first_buy 7"
    by (simp_all add: storage_failure_def row)
  have absent: "filter (holding_matches 1 ''XYZ'') (holdings_tbl after_first_buy) = []"
    by (simp add: after_first_buy_eq holding_matches_def)
  have held: "filter (holding_matches 1 ''ACME'') (holdings_tbl after_first_buy) \<noteq> []"
    "h_shares (last (filter (holding_matches 1 ''ACME'') (holdings_tbl after_first_buy))) < 11"
    by (simp_all add: after_first_buy_eq holding_matches_def)
  have none: "select_portfolio (user_without_portfolio 7) 7 = None"
    "\<not> storage_failure NoFault (user_without_portfolio 7) 7"
    "fresh_portfolio_id (user_without_portfolio 7) = 1"
    "portfolios_tbl (user_without_portfolio 7) = []"
    by (simp_all add: user_without_portfolio_def select_portfolio_def storage_failure_def
        fresh_portfolio_id_def)
  have load: "snd (get_user_portfolio NoFault after_first_buy 7) = after_first_buy"
    by (simp add: get_user_portfolio_found [OF row])
  from sell_rejected_leaves_ledger_unchanged
         [of NoFault after_first_buy 7 NoFault "''XYZ''" 1 100 "''''"]
    sell_rejected_leaves_ledger_unchanged
         [of NoFault after_first_buy 7 NoFault "''ACME''" 11 100 "''''"]
    sell_rejected_leaves_ledger_unchanged
         [of "ExecuteRaises 0" after_first_buy 7 NoFault "''XYZ''" 1 100 "''''"]
    sell_rejected_leaves_ledger_unchanged
         [of NoFault "user_without_portfolio 7" 7 NoFault "''XYZ''" 1 100 "''''"]
    sell_rejected_leaves_ledger_unchanged
         [of NoFault after_first_buy 7 ConnectFails "''XYZ''" 1 100 "''''"]
    row answers absent held none load
  show ?thesis by simp
qed

subsection \<open>Non-positive shares or price\<close>




subsection \<open>The valuation and the store\<close>







subsection \<open>What a statement that succeeds has written\<close>

lemma to_decimal2_Inr: "to_decimal2 x = Inr c \<Longrightarrow> c = round_half_away (x * 100)"
  by (simp add: to_decimal2_def Let_def split: if_splits)

lemma to_int4_Inr: "to_int4 n = Inr m \<Longrightarrow> m = n"
  by (simp add: to_int4_def split: if_splits)

lemma update_cash_Inr:
  assumes "update_cash pid x d = Inr d'"
  shows "d' = d\<lparr>portfolios_tbl := set_cash pid (round_half_away (x * 100)) (portfolios_tbl d)\<rparr>"
  using assms
  by (auto simp: update_cash_def set_cash_def split: sum.splits dest!: to_decimal2_Inr)

lemma buy_update_row_Inr:
  assumes "buy_update_row shares (of_int shares * price) r = Inr r'"
  shows "r' = holding_after_buy shares price r \<and> h_shares r + shares \<noteq> 0"
  using assms
  by (auto simp: buy_update_row_def holding_after_buy_def
      split: sum.splits if_splits dest!: to_decimal2_Inr to_int4_Inr)

lemma update_where_Inr:
  assumes "update_where P f rs = Inr rs'" and "\<And>r r'. f r = Inr r' \<Longrightarrow> r' = g r"
  shows "rs' = map (\<lambda>r. if P r then g r else r) rs"
  using assms(1)
proof (induction rs arbitrary: rs')
  case Nil
  then show ?case by simp
next
  case (Cons r rs)
  then show ?case
    by (auto split: if_splits sum.splits dest: assms(2))
qed

lemma update_holding_buy_Inr:
  assumes "update_holding_buy pid symbol shares (of_int shares * price) d = Inr d'"
  shows "d' = d\<lparr>holdings_tbl :=
           map (\<lambda>r. if holding_matches pid symbol r then holding_after_buy shares price r else r)
             (holdings_tbl d)\<rparr>"
proof -
  from assms obtain hs where
    hs: "update_where (holding_matches pid symbol) (buy_update_row shares (of_int shares * price))
           (holdings_tbl d) = Inr hs" and d': "d' = d\<lparr>holdings_tbl := hs\<rparr>"
    by (auto simp: update_holding_buy_def split: sum.splits)
  have "hs = map (\<lambda>r. if holding_matches pid symbol r then holding_after_buy shares price r else r)
             (holdings_tbl d)"
    by (rule update_where_Inr [OF hs]) (simp add: buy_update_row_Inr)
  with d' show ?thesis by simp
qed

lemma insert_holding_Inr:
  assumes "insert_holding pid symbol cn shares price (of_int shares * price) d = Inr d'"
  shows "d' = d\<lparr>holdings_tbl := holdings_tbl d @ [new_holding_row pid symbol cn shares price]\<rparr>
         \<and> portfolio_exists d pid"
  using assms
  by (auto simp: insert_holding_def new_holding_row_def
      split: sum.splits if_splits dest!: to_decimal2_Inr to_int4_Inr)

lemma insert_buy_order_Inr:
  assumes "insert_order pid symbol cn ''buy'' shares price (of_int shares * price) None d = Inr d'"
  shows "d' = d\<lparr>orders_tbl := orders_tbl d @ [buy_order_row pid symbol cn shares price]\<rparr>
         \<and> portfolio_exists d pid"
  using assms
  by (auto simp: insert_order_def buy_order_row_def
      split: sum.splits if_splits dest!: to_decimal2_Inr to_int4_Inr)

lemma insert_sell_order_Inr:
  assumes "insert_order pid symbol cn ''sell'' shares price (of_int shares * price)
             (Some ((price - avg) * of_int shares)) d = Inr d'"
  shows "d' = d\<lparr>orders_tbl := orders_tbl d @ [sell_order_row pid symbol cn shares price avg]\<rparr>
         \<and> portfolio_exists d pid"
  using assms
  by (auto simp: insert_order_def sell_order_row_def
      split: sum.splits if_splits dest!: to_decimal2_Inr to_int4_Inr)

lemma execute_Inr: "execute f i stmt d = Inr d' \<Longrightarrow> stmt d = Inr d'"
  by (simp add: execute_def split: if_splits)

lemma buy_success:
  assumes "buy f conn d1 pf symbol shares price cn = (Some (True, m), d')"
  shows "m = BuyOrderExecuted \<and> of_int shares * price \<le> cash pf \<and>
     users_tbl d' = users_tbl d1 \<and>
     portfolios_tbl d' =
       set_cash (portfolio_id pf) (round_half_away ((cash pf - of_int shares * price) * 100))
         (portfolios_tbl d1) \<and>
     holdings_tbl d' =
       (if list_ex (holding_matches (portfolio_id pf) symbol) (holdings_tbl d1)
        then map (\<lambda>r. if holding_matches (portfolio_id pf) symbol r
                       then holding_after_buy shares price r else r) (holdings_tbl d1)
        else holdings_tbl d1 @ [new_holding_row (portfolio_id pf) symbol cn shares price]) \<and>
     orders_tbl d' = orders_tbl d1 @ [buy_order_row (portfolio_id pf) symbol cn shares price] \<and>
     portfolio_exists d' (portfolio_id pf)"
proof -
  let ?pid = "portfolio_id pf"
  let ?cost = "of_int shares * price"
  from assms have le: "?cost \<le> cash pf"
    by (auto simp: buy_def Let_def split: if_splits)
  from assms le obtain d2 where
    s0: "execute f 0 (update_cash ?pid (cash pf - ?cost)) d1 = Inr d2"
    by (auto simp: buy_def Let_def transaction_failed_def split: sum.splits)
  let ?ex = "list_ex (holding_matches ?pid symbol) (holdings_tbl d2)"
  from assms le s0 obtain d3 where
    s2: "execute f 2 (if ?ex then update_holding_buy ?pid symbol shares ?cost
                       else insert_holding ?pid symbol cn shares price ?cost) d2 = Inr d3"
    by (auto simp: buy_def Let_def transaction_failed_def split: sum.splits if_splits)
  from assms le s0 s2 have
    s3: "execute f 3 (insert_order ?pid symbol cn ''buy'' shares price ?cost None) d3 = Inr d'"
    and m: "m = BuyOrderExecuted"
    by (auto simp: buy_def Let_def transaction_failed_def split: sum.splits if_splits)
  note e0 = update_cash_Inr [OF execute_Inr [OF s0]]
  have h2: "holdings_tbl d2 = holdings_tbl d1" using e0 by simp
  have e2: "d3 = d2\<lparr>holdings_tbl :=
      (if ?ex then map (\<lambda>r. if holding_matches ?pid symbol r
                       then holding_after_buy shares price r else r) (holdings_tbl d2)
        else holdings_tbl d2 @ [new_holding_row ?pid symbol cn shares price])\<rparr>"
    using execute_Inr [OF s2] by (auto dest: update_holding_buy_Inr insert_holding_Inr)
  note e3 = insert_buy_order_Inr [OF execute_Inr [OF s3]]
  show ?thesis
    using m le e0 e2 e3 by (simp add: portfolio_exists_def)
qed


lemma round_half_away_of_int: "round_half_away (of_int n) = n"
proof -
  have "\<lfloor>(of_int m :: rat) + 1 / 2\<rfloor> = m" for m
    by (simp add: floor_eq_iff)
  from this [of n] this [of "- n"] show ?thesis
    by (simp add: round_half_away_def)
qed

lemma round_cents: "round_half_away (of_int k * dec_float a * 100) = k * a"
proof -
  have "of_int k * dec_float a * 100 = (of_int (k * a) :: rat)"
    by (simp add: dec_float_def)
  then show ?thesis by (simp only: round_half_away_of_int)
qed

lemma update_holding_sell_Inr:
  assumes "update_holding_sell pid symbol n (of_int n * dec_float a) d = Inr d'"
  shows "d' = d\<lparr>holdings_tbl :=
           map (\<lambda>r. if holding_matches pid symbol r then holding_after_sell n a r else r)
             (holdings_tbl d)\<rparr>"
  using assms
  by (auto simp: update_holding_sell_def holding_after_sell_def round_cents
      split: sum.splits dest!: to_decimal2_Inr to_int4_Inr)

lemma delete_holding_Inr:
  "delete_holding pid symbol d = Inr d' \<Longrightarrow>
   d' = d\<lparr>holdings_tbl := filter (\<lambda>r. \<not> holding_matches pid symbol r) (holdings_tbl d)\<rparr>"
  by (simp add: delete_holding_def)

lemma sell_success:
  assumes "sell f conn d1 pf symbol shares price cn = (Some (True, m), d')"
      and "map_of (holdings pf) symbol = Some h" and "hold_avg_price h = dec_float a"
  shows "shares \<le> hold_shares h \<and>
     m = SellOrderExecuted (format_2f ((price - dec_float a) * of_int shares)) \<and>
     users_tbl d' = users_tbl d1 \<and>
     portfolios_tbl d' =
       set_cash (portfolio_id pf) (round_half_away ((cash pf + of_int shares * price) * 100))
         (portfolios_tbl d1) \<and>
     holdings_tbl d' =
       (if hold_shares h = shares
        then filter (\<lambda>r. \<not> holding_matches (portfolio_id pf) symbol r) (holdings_tbl d1)
        else map (\<lambda>r. if holding_matches (portfolio_id pf) symbol r
                       then holding_after_sell (hold_shares h - shares) a r else r)
               (holdings_tbl d1)) \<and>
     orders_tbl d' =
       orders_tbl d1 @ [sell_order_row (portfolio_id pf) symbol cn shares price (dec_float a)]"
proof -
  let ?pid = "portfolio_id pf"
  let ?rem = "hold_shares h - shares"
  from assms have le: "shares \<le> hold_shares h"
    by (auto simp: sell_def Let_def split: if_splits)
  from assms le obtain d2 where
    s0: "execute f 0 (update_cash ?pid (cash pf + of_int shares * price)) d1 = Inr d2"
    by (auto simp: sell_def Let_def transaction_failed_def split: sum.splits)
  from assms le s0 obtain d3 where
    s1: "execute f 1 (if ?rem = 0 then delete_holding ?pid symbol
                       else update_holding_sell ?pid symbol ?rem (of_int ?rem * dec_float a))
           d2 = Inr d3"
    by (auto simp: sell_def Let_def transaction_failed_def split: sum.splits if_splits)
  from assms le s0 s1 have
    s2: "execute f 2 (insert_order ?pid symbol cn ''sell'' shares price (of_int shares * price)
                        (Some ((price - dec_float a) * of_int shares))) d3 = Inr d'"
    and m: "m = SellOrderExecuted (format_2f ((price - dec_float a) * of_int shares))"
    by (auto simp: sell_def Let_def transaction_failed_def split: sum.splits if_splits)
  note e0 = update_cash_Inr [OF execute_Inr [OF s0]]
  have e1: "d3 = d2\<lparr>holdings_tbl :=
      (if hold_shares h = shares
        then filter (\<lambda>r. \<not> holding_matches ?pid symbol r) (holdings_tbl d2)
        else map (\<lambda>r. if holding_matches ?pid symbol r
                       then holding_after_sell ?rem a r else r) (holdings_tbl d2))\<rparr>"
  proof (cases "hold_shares h = shares")
    case True
    with execute_Inr [OF s1] have "delete_holding ?pid symbol d2 = Inr d3" by simp
    from delete_holding_Inr [OF this] True show ?thesis by simp
  next
    case False
    then have nz: "?rem \<noteq> 0" by simp
    from execute_Inr [OF s1]
    have "update_holding_sell ?pid symbol ?rem (of_int ?rem * dec_float a) d2 = Inr d3"
      unfolding if_not_P [OF nz] .
    from update_holding_sell_Inr [OF this] False show ?thesis by simp
  qed
  note e2 = insert_sell_order_Inr [OF execute_Inr [OF s2]]
  show ?thesis
    using m le e0 e1 e2 by simp
qed

lemma sell_success_held:
  assumes "sell f conn d1 pf symbol shares price cn = (Some (True, m), d')"
  shows "\<exists>h. map_of (holdings pf) symbol = Some h"
  using assms by (auto simp: sell_def split: option.splits)

lemma find_append_new:
  "find P xs = None \<Longrightarrow> P x \<Longrightarrow> find P (xs @ [x]) = Some x"
  by (induction xs) (auto split: if_splits)

lemma get_user_portfolio_cases:
  assumes "get_user_portfolio f d user_id = (Some pf, d1)"
  shows "(pf = default_portfolio \<and> d1 = d) \<or>
         (\<exists>row. select_portfolio d user_id = Some row \<and> d1 = d \<and>
            pf = \<lparr>cash = dec_float (p_cash row),
                   holdings = holdings_dict (select_holdings d (p_id row)),
                   orders = map order_of_row (select_recent_orders d (p_id row)),
                   portfolio_id = p_id row\<rparr>) \<or>
         (\<exists>row. select_portfolio d user_id = None \<and> select_portfolio d1 user_id = Some row \<and>
            p_cash row = 10000000 \<and>
            pf = \<lparr>cash = 100000, holdings = [], orders = [], portfolio_id = p_id row\<rparr>)"
  using assms
  by (auto simp: get_user_portfolio_def get_db_connection_def insert_portfolio_def Let_def
      select_portfolio_def find_append_new
      split: option.splits sum.splits prod.splits if_splits)


lemma portfolio_exists_set_cash:
  "list_ex (\<lambda>r. p_id r = pid) (set_cash q c rows) = list_ex (\<lambda>r. p_id r = pid) rows"
  by (induction rows) (auto simp: set_cash_def)

subsection \<open>A successful buy\<close>



lemma buy_writes:
  assumes ok: "update_portfolio_db f1 f2 d user_id symbol ''buy'' shares price company_name =
                 (Some (True, m), d')"
      and ids: "\<not> portfolio_exists d 0"
      and load: "d1 = snd (get_user_portfolio f1 d user_id)"
  shows "\<exists>row. select_portfolio d1 user_id = Some row \<and>
           of_int shares * price \<le> dec_float (p_cash row) \<and>
           portfolios_tbl d' =
             set_cash (p_id row)
               (round_half_away ((dec_float (p_cash row) - of_int shares * price) * 100))
               (portfolios_tbl d1) \<and>
           holdings_tbl d' =
             (if list_ex (holding_matches (p_id row) symbol) (holdings_tbl d)
              then map (\<lambda>r. if holding_matches (p_id row) symbol r
                             then holding_after_buy shares price r else r) (holdings_tbl d)
              else holdings_tbl d @
                     [new_holding_row (p_id row) symbol company_name shares price]) \<and>
           orders_tbl d' =
             orders_tbl d @ [buy_order_row (p_id row) symbol company_name shares price]"
proof -
  obtain pf where g: "get_user_portfolio f1 d user_id = (Some pf, d1)"
    using get_user_portfolio_Some [of f1 d user_id] load
    by (cases "get_user_portfolio f1 d user_id") auto
  from ok g obtain conn where
    b: "buy f2 conn d1 pf symbol shares price company_name = (Some (True, m), d')"
    by (auto simp: update_portfolio_db_def split: option.splits)
  note s = buy_success [OF b]
  note t = get_user_portfolio_tables [OF g]
  from s have "list_ex (\<lambda>r. p_id r = portfolio_id pf)
      (set_cash (portfolio_id pf)
         (round_half_away ((cash pf - of_int shares * price) * 100)) (portfolios_tbl d1))"
    unfolding portfolio_exists_def by metis
  then have ex: "portfolio_exists d1 (portfolio_id pf)"
    by (simp only: portfolio_exists_def portfolio_exists_set_cash)
  have "pf \<noteq> default_portfolio \<or> d1 \<noteq> d"
    using ex ids by (auto simp: default_portfolio_def)
  with get_user_portfolio_cases [OF g] obtain row where
    row: "select_portfolio d1 user_id = Some row" "portfolio_id pf = p_id row"
         "cash pf = dec_float (p_cash row)"
    by (auto simp: dec_float_def)
  show ?thesis
    using s t row by auto
qed



subsection \<open>A successful sell\<close>




lemma sell_writes:
  assumes ok: "update_portfolio_db f1 f2 d user_id symbol ''sell'' shares price company_name =
                 (Some (True, m), d')"
  shows "\<exists>row r. select_portfolio d user_id = Some row \<and>
           filter (holding_matches (p_id row) symbol) (holdings_tbl d) \<noteq> [] \<and>
           r = last (filter (holding_matches (p_id row) symbol) (holdings_tbl d)) \<and>
           shares \<le> h_shares r \<and>
           m = SellOrderExecuted
                 (format_2f ((price - dec_float (h_avg_price r)) * of_int shares)) \<and>
           portfolios_tbl d' =
             set_cash (p_id row)
               (round_half_away ((dec_float (p_cash row) + of_int shares * price) * 100))
               (portfolios_tbl d) \<and>
           holdings_tbl d' =
             (if h_shares r = shares
              then filter (\<lambda>x. \<not> holding_matches (p_id row) symbol x) (holdings_tbl d)
              else map (\<lambda>x. if holding_matches (p_id row) symbol x
                             then holding_after_sell (h_shares r - shares) (h_avg_price r) x
                             else x) (holdings_tbl d)) \<and>
           (h_shares r \<noteq> shares \<longrightarrow>
              map h_avg_price (holdings_tbl d') = map h_avg_price (holdings_tbl d)) \<and>
           orders_tbl d' =
             orders_tbl d @
               [sell_order_row (p_id row) symbol company_name shares price
                  (dec_float (h_avg_price r))]"
proof -
  obtain pf d1 where g: "get_user_portfolio f1 d user_id = (Some pf, d1)"
    using get_user_portfolio_Some [of f1 d user_id]
    by (cases "get_user_portfolio f1 d user_id") auto
  from ok g obtain conn where
    b: "sell f2 conn d1 pf symbol shares price company_name = (Some (True, m), d')"
    by (auto simp: update_portfolio_db_def split: option.splits if_splits)
  from sell_success_held [OF b] obtain h where h: "map_of (holdings pf) symbol = Some h" ..
  then have "holdings pf \<noteq> []" by auto
  with get_user_portfolio_cases [OF g] obtain row where
    row: "select_portfolio d user_id = Some row" "d1 = d"
    and pf: "pf = \<lparr>cash = dec_float (p_cash row),
                   holdings = holdings_dict (select_holdings d (p_id row)),
                   orders = map order_of_row (select_recent_orders d (p_id row)),
                   portfolio_id = p_id row\<rparr>"
    by (auto simp: default_portfolio_def)
  let ?held = "filter (holding_matches (p_id row) symbol) (holdings_tbl d)"
  from h pf have held: "?held \<noteq> []" and hh: "h = holding_of_row (last ?held)"
    by (auto simp: map_of_holdings_dict filter_select_holdings split: if_splits)
  have avg: "hold_avg_price h = dec_float (h_avg_price (last ?held))"
    and sh: "hold_shares h = h_shares (last ?held)"
    by (simp_all add: hh holding_of_row_def)
  note s = sell_success [OF b h avg]
  have keep: "map h_avg_price (map (\<lambda>x. if P x then holding_after_sell n a x else x) rows) =
              map h_avg_price rows" for P n a rows
    by (induction rows) (auto simp: holding_after_sell_def)
  show ?thesis
    using s row held sh pf keep by auto
qed



subsection \<open>Cash stays non-negative\<close>




lemma execute_keeps_portfolios:
  assumes "execute f i stmt d = Inr d'" and "\<And>d'. stmt d = Inr d' \<Longrightarrow> portfolios_tbl d' = portfolios_tbl d"
  shows "portfolios_tbl d' = portfolios_tbl d"
  using assms by (auto simp: execute_def split: if_splits)









lemma two_trades_result:
  "run_trades (registered_db 7) two_trades =
     ([Some (True, BuyOrderExecuted), Some (True, SellOrderExecuted \<lparr>minus_sign = False, hundredths = 25000\<rparr>)],
      \<lparr>users_tbl = [7],
       portfolios_tbl =
         [\<lparr>p_id = 1, p_user_id = 7, p_cash = 9975000, p_total_value = 10000000\<rparr>],
       holdings_tbl =
         [\<lparr>h_portfolio_id = 1, h_symbol = ''ACME'', h_company_name = ''Acme Ltd'',
           h_shares = 5, h_avg_price = 10000, h_total_invested = 50000\<rparr>],
       orders_tbl =
         [\<lparr>o_portfolio_id = 1, o_symbol = ''ACME'', o_company_name = ''Acme Ltd'',
           o_action = ''buy'', o_shares = 10, o_price = 10000, o_total = 100000,
           o_profit_loss = None\<rparr>,
          \<lparr>o_portfolio_id = 1, o_symbol = ''ACME'', o_company_name = '''',
           o_action = ''sell'', o_shares = 5, o_price = 15000, o_total = 75000,
           o_profit_loss = Some 25000\<rparr>]\<rparr>)"
  by code_simp




subsection \<open>Cash and the order log\<close>

lemma round_half_away_near: "\<bar>of_int (round_half_away z) - z\<bar> \<le> 1 / 2"
proof (cases "0 \<le> z")
  case True
  have "of_int \<lfloor>z + 1 / 2\<rfloor> \<le> z + 1 / 2" "z + 1 / 2 < of_int \<lfloor>z + 1 / 2\<rfloor> + 1"
    by linarith+
  then have "\<bar>of_int \<lfloor>z + 1 / 2\<rfloor> - z\<bar> \<le> 1 / 2" by linarith
  with True show ?thesis by (simp only: round_half_away_def if_True)
next
  case False
  have "of_int \<lfloor>- z + 1 / 2\<rfloor> \<le> - z + 1 / 2" "- z + 1 / 2 < of_int \<lfloor>- z + 1 / 2\<rfloor> + 1"
    by linarith+
  then have "\<bar>- of_int \<lfloor>- z + 1 / 2\<rfloor> - z\<bar> \<le> 1 / 2" by linarith
  then have "\<bar>of_int (- \<lfloor>- z + 1 / 2\<rfloor>) - z\<bar> \<le> 1 / 2" by (simp only: of_int_minus)
  with False show ?thesis by (simp only: round_half_away_def if_False)
qed

lemma round_buy_near:
  "\<bar>round_half_away (of_int c - y) + round_half_away y - c\<bar> \<le> 1"
proof -
  have "\<bar>(of_int (round_half_away (of_int c - y)) + of_int (round_half_away y) - of_int c :: rat)\<bar> \<le> 1"
    using round_half_away_near [of "of_int c - y"] round_half_away_near [of y]
    by linarith
  then have "(of_int \<bar>round_half_away (of_int c - y) + round_half_away y - c\<bar> :: rat) \<le> of_int 1"
    by (simp only: of_int_abs of_int_1 of_int_add of_int_diff)
  then show ?thesis by (simp only: of_int_le_iff)
qed

lemma round_sell_near:
  "\<bar>round_half_away (of_int c + y) - round_half_away y - c\<bar> \<le> 1"
proof -
  have "\<bar>(of_int (round_half_away (of_int c + y)) - of_int (round_half_away y) - of_int c :: rat)\<bar> \<le> 1"
    using round_half_away_near [of "of_int c + y"] round_half_away_near [of y]
    by linarith
  then have "(of_int \<bar>round_half_away (of_int c + y) - round_half_away y - c\<bar> :: rat) \<le> of_int 1"
    by (simp only: of_int_abs of_int_1 of_int_add of_int_diff)
  then show ?thesis by (simp only: of_int_le_iff)
qed

lemma round_buy_exact:
  "round_half_away (of_int c - of_int k) + round_half_away (of_int k) - c = 0"
  using round_half_away_of_int [of "c - k"] by (simp add: round_half_away_of_int)

lemma round_sell_exact:
  "round_half_away (of_int c + of_int k) - round_half_away (of_int k) - c = 0"
  using round_half_away_of_int [of "c + k"] by (simp add: round_half_away_of_int)

lemma get_user_portfolio_existing:
  assumes "select_portfolio d user_id = Some row"
  shows "snd (get_user_portfolio f d user_id) = d"
  using assms
  by (auto simp: get_user_portfolio_def get_db_connection_def split: option.splits)

lemma find_set_cash:
  assumes "find (\<lambda>r. p_user_id r = user_id) rows = Some row"
  shows "find (\<lambda>r. p_user_id r = user_id) (set_cash (p_id row) c rows) = Some (row\<lparr>p_cash := c\<rparr>)"
  using assms by (induction rows) (auto simp: set_cash_def split: if_splits)

lemma select_portfolio_set_cash:
  assumes "select_portfolio d user_id = Some row"
      and "portfolios_tbl d' = set_cash (p_id row) c (portfolios_tbl d)"
  shows "select_portfolio d' user_id = Some (row\<lparr>p_cash := c\<rparr>)"
  using assms by (simp add: select_portfolio_def find_set_cash)

lemma portfolio_exists_after_set_cash:
  assumes "portfolios_tbl d' = set_cash q c (portfolios_tbl d)"
  shows "portfolio_exists d' pid = portfolio_exists d pid"
  using assms by (simp add: portfolio_exists_def portfolio_exists_set_cash)

lemma totals_after_buy_order:
  assumes "orders_tbl d' = orders_tbl d @ [buy_order_row pid symbol cn shares price]"
  shows "buy_totals d' pid = buy_totals d pid + round_half_away (of_int shares * price * 100)"
    and "sell_totals d' pid = sell_totals d pid"
  using assms by (simp_all add: buy_totals_def sell_totals_def buy_order_row_def)

lemma totals_after_sell_order:
  assumes "orders_tbl d' = orders_tbl d @ [sell_order_row pid symbol cn shares price avg]"
  shows "sell_totals d' pid = sell_totals d pid + round_half_away (of_int shares * price * 100)"
    and "buy_totals d' pid = buy_totals d pid"
  using assms by (simp_all add: buy_totals_def sell_totals_def sell_order_row_def)

lemma dec_float_100: "dec_float c * 100 = of_int c"
  by (simp add: dec_float_def)

lemma whole_cents_of_int: "whole_cents x \<Longrightarrow> \<exists>k. x * 100 = of_int k"
  unfolding whole_cents_def by metis

lemma whole_cents_cost:
  assumes "whole_cents price"
  shows "\<exists>k. of_int shares * price * 100 = (of_int k :: rat)"
proof -
  from whole_cents_of_int [OF assms] obtain k where "price * 100 = of_int k" ..
  then have "of_int shares * price * 100 = (of_int (shares * k) :: rat)"
    by (simp add: mult.assoc)
  then show ?thesis ..
qed

text \<open>An amount that is a whole number of cents is stored as it is.\<close>

lemma stored_whole_cents:
  assumes "whole_cents x"
  shows "dec_float (round_half_away (x * 100)) = x"
proof -
  from whole_cents_of_int [OF assms] obtain k where k: "x * 100 = of_int k" ..
  then have "round_half_away (x * 100) = k"
    by (simp only: round_half_away_of_int)
  with k show ?thesis by (simp add: dec_float_def)
qed

lemma successful_trade_conserves:
  assumes row: "select_portfolio d user_id = Some row"
      and ids: "\<not> portfolio_exists d 0"
      and ok: "update_portfolio_db f1 f2 d user_id symbol action shares price cn = (Some (True, m), d')"
  shows "\<exists>row'. select_portfolio d' user_id = Some row' \<and> p_id row' = p_id row \<and>
           \<not> portfolio_exists d' 0 \<and>
           \<bar>(p_cash row' + buy_totals d' (p_id row) - sell_totals d' (p_id row)) -
             (p_cash row + buy_totals d (p_id row) - sell_totals d (p_id row))\<bar> \<le> 1 \<and>
           (whole_cents price \<longrightarrow>
              p_cash row' + buy_totals d' (p_id row) - sell_totals d' (p_id row) =
              p_cash row + buy_totals d (p_id row) - sell_totals d (p_id row))"
proof -
  let ?y = "of_int shares * price * 100"
  let ?c = "p_cash row"
  from ok have act: "action = ''buy'' \<or> action = ''sell''"
    using get_user_portfolio_Some [of f1 d user_id]
    by (auto simp: update_portfolio_db_def split: prod.splits option.splits if_splits)
  then show ?thesis
  proof
    assume a: "action = ''buy''"
    let ?c' = "round_half_away (of_int ?c - ?y)"
    from buy_writes [OF ok [unfolded a] ids refl]
    have p: "portfolios_tbl d' = set_cash (p_id row) ?c' (portfolios_tbl d)"
      and o: "orders_tbl d' = orders_tbl d @ [buy_order_row (p_id row) symbol cn shares price]"
      by (auto simp: get_user_portfolio_existing [OF row] row left_diff_distrib dec_float_100)
    note s = select_portfolio_set_cash [OF row p]
    note e = portfolio_exists_after_set_cash [OF p]
    note t = totals_after_buy_order [OF o]
    have near: "\<bar>?c' + round_half_away ?y - ?c\<bar> \<le> 1" by (rule round_buy_near)
    have exact: "?c' + round_half_away ?y - ?c = 0" if "whole_cents price"
    proof -
      from whole_cents_cost [OF that] obtain k where "?y = of_int k" ..
      then show ?thesis by (simp only: round_buy_exact)
    qed
    show ?thesis
      using s e ids t near exact by (intro exI [of _ "row\<lparr>p_cash := ?c'\<rparr>"]) auto
  next
    assume a: "action = ''sell''"
    let ?c' = "round_half_away (of_int ?c + ?y)"
    from sell_writes [OF ok [unfolded a]] obtain avg where
      p: "portfolios_tbl d' = set_cash (p_id row) ?c' (portfolios_tbl d)"
      and o: "orders_tbl d' = orders_tbl d @ [sell_order_row (p_id row) symbol cn shares price avg]"
      by (auto simp: row distrib_right dec_float_100)
    note s = select_portfolio_set_cash [OF row p]
    note e = portfolio_exists_after_set_cash [OF p]
    note t = totals_after_sell_order [OF o]
    have near: "\<bar>?c' - round_half_away ?y - ?c\<bar> \<le> 1" by (rule round_sell_near)
    have exact: "?c' - round_half_away ?y - ?c = 0" if "whole_cents price"
    proof -
      from whole_cents_cost [OF that] obtain k where "?y = of_int k" ..
      then show ?thesis by (simp only: round_sell_exact)
    qed
    show ?thesis
      using s e ids t near exact by (intro exI [of _ "row\<lparr>p_cash := ?c'\<rparr>"]) auto
  qed
qed

lemma succeeded_iff: "succeeded r \<longleftrightarrow> (\<exists>m. r = Some (True, m))"
  by (auto simp: succeeded_def split: option.splits bool.splits)

lemma run_trades_Cons:
  "fst (run_trades d (t # ts)) = fst (run_trade d t) # fst (run_trades (snd (run_trade d t)) ts)"
  "snd (run_trades d (t # ts)) = snd (run_trades (snd (run_trade d t)) ts)"
  by (simp_all split: prod.splits)

lemma run_trades_conserve:
  assumes "select_portfolio d0 user_id = Some row0"
      and "\<not> portfolio_exists d0 0"
      and "\<forall>t\<in>set ts. t_user_id t = user_id"
      and "list_all succeeded (fst (run_trades d0 ts))"
  shows "\<exists>row. select_portfolio (snd (run_trades d0 ts)) user_id = Some row \<and>
           p_id row = p_id row0 \<and>
           \<bar>(p_cash row + buy_totals (snd (run_trades d0 ts)) (p_id row0)
                - sell_totals (snd (run_trades d0 ts)) (p_id row0)) -
             (p_cash row0 + buy_totals d0 (p_id row0) - sell_totals d0 (p_id row0))\<bar>
             \<le> int (length ts) \<and>
           ((\<forall>t\<in>set ts. whole_cents (t_price t)) \<longrightarrow>
              p_cash row + buy_totals (snd (run_trades d0 ts)) (p_id row0)
                - sell_totals (snd (run_trades d0 ts)) (p_id row0) =
              p_cash row0 + buy_totals d0 (p_id row0) - sell_totals d0 (p_id row0))"
  using assms
proof (induction ts arbitrary: d0 row0)
  case Nil
  then show ?case by simp
next
  case (Cons t ts)
  let ?d1 = "snd (run_trade d0 t)"
  let ?pid = "p_id row0"
  from Cons.prems(4) have "succeeded (fst (run_trade d0 t))"
    and rest: "list_all succeeded (fst (run_trades ?d1 ts))"
    unfolding run_trades_Cons by simp_all
  then obtain m where r: "fst (run_trade d0 t) = Some (True, m)"
    unfolding succeeded_iff by blast
  from Cons.prems(3) have u: "t_user_id t = user_id"
    and us: "\<forall>t\<in>set ts. t_user_id t = user_id" by simp_all
  have ok: "update_portfolio_db (t_load_fault t) (t_fault t) d0 user_id (t_symbol t) (t_action t)
              (t_shares t) (t_price t) (t_company_name t) = (Some (True, m), ?d1)"
    using r u by (simp add: run_trade_def prod_eq_iff)
  from successful_trade_conserves [OF Cons.prems(1,2) ok] obtain row1 where
    row1: "select_portfolio ?d1 user_id = Some row1" and pid: "p_id row1 = ?pid"
    and ids1: "\<not> portfolio_exists ?d1 0"
    and near1: "\<bar>(p_cash row1 + buy_totals ?d1 ?pid - sell_totals ?d1 ?pid) -
             (p_cash row0 + buy_totals d0 ?pid - sell_totals d0 ?pid)\<bar> \<le> 1"
    and exact1: "whole_cents (t_price t) \<longrightarrow>
              p_cash row1 + buy_totals ?d1 ?pid - sell_totals ?d1 ?pid =
              p_cash row0 + buy_totals d0 ?pid - sell_totals d0 ?pid"
    by blast
  from Cons.IH [OF row1 ids1 us rest] pid obtain row where
    row: "select_portfolio (snd (run_trades ?d1 ts)) user_id = Some row" "p_id row = ?pid"
    and near: "\<bar>(p_cash row + buy_totals (snd (run_trades ?d1 ts)) ?pid
                - sell_totals (snd (run_trades ?d1 ts)) ?pid) -
             (p_cash row1 + buy_totals ?d1 ?pid - sell_totals ?d1 ?pid)\<bar> \<le> int (length ts)"
    and exact: "(\<forall>t\<in>set ts. whole_cents (t_price t)) \<longrightarrow>
              p_cash row + buy_totals (snd (run_trades ?d1 ts)) ?pid
                - sell_totals (snd (run_trades ?d1 ts)) ?pid =
              p_cash row1 + buy_totals ?d1 ?pid - sell_totals ?d1 ?pid"
    by auto
  show ?case
    unfolding run_trades_Cons
    using row near near1 exact exact1
    by (intro exI [of _ row]) auto
qed

lemma totals_of_fresh:
  assumes "filter (\<lambda>r. o_portfolio_id r = pid) (orders_tbl d) = []"
  shows "buy_totals d pid = 0" and "sell_totals d pid = 0"
proof -
  have "filter (\<lambda>r. o_portfolio_id r = pid \<and> o_action r = a) (orders_tbl d) =
        filter (\<lambda>r. o_action r = a) (filter (\<lambda>r. o_portfolio_id r = pid) (orders_tbl d))"
    for a
    by (simp add: conj_commute)
  with assms show "buy_totals d pid = 0" and "sell_totals d pid = 0"
    by (simp_all add: buy_totals_def sell_totals_def)
qed

text \<open>
  C4 as stated fails: the total invested does not belong in the identity. After the one
  buy of 10 shares at 100.00 from the initial cash 100000.00 the cash is 99000.00 and
  the total invested 1000.00, together 100000.00, while the initial cash less the buy
  total is 99000.00: the two sides are 1000.00 apart.
\<close>

theorem conservation_counterexample:
  "run_trades (registered_db 7) (take 1 two_trades) =
     ([Some (True, BuyOrderExecuted)], after_first_buy) \<and>
   map p_cash (portfolios_tbl (registered_db 7)) = [10000000] \<and>
   map p_cash (portfolios_tbl after_first_buy) = [9900000] \<and>
   invested_total after_first_buy 1 = 100000 \<and>
   buy_totals after_first_buy 1 = 100000 \<and>
   sell_totals after_first_buy 1 = 0 \<and>
   \<not> \<bar>(9900000 + invested_total after_first_buy 1) -
       (10000000 - buy_totals after_first_buy 1 + sell_totals after_first_buy 1)\<bar> \<le> 1"
  unfolding after_first_buy_eq by code_simp

text \<open>
  C4, as amended. For every sequence of successful buys and sells of one user, starting
  from a portfolio with cash C0 and no orders yet, the cash after the sequence is C0 less
  the totals of the buy orders plus the totals of the sell orders: exactly when every
  price is a whole number of cents, and within one cent for each trade of the sequence
  otherwise, since cash and order total are rounded separately. The total invested of
  the holdings is no part of the identity. (Amounts are in hundredths.)
\<close>

theorem cash_conservation:
  assumes "select_portfolio d0 user_id = Some row0"
      and "\<not> portfolio_exists d0 0"
      and "filter (\<lambda>r. o_portfolio_id r = p_id row0) (orders_tbl d0) = []"
      and "\<forall>t\<in>set ts. t_user_id t = user_id"
      and "list_all succeeded (fst (run_trades d0 ts))"
      and "d' = snd (run_trades d0 ts)"
  shows "\<exists>row. select_portfolio d' user_id = Some row \<and> p_id row = p_id row0 \<and>
           \<bar>p_cash row -
             (p_cash row0 - buy_totals d' (p_id row0) + sell_totals d' (p_id row0))\<bar>
             \<le> int (length ts) \<and>
           ((\<forall>t\<in>set ts. whole_cents (t_price t)) \<longrightarrow>
              p_cash row =
                p_cash row0 - buy_totals d' (p_id row0) + sell_totals d' (p_id row0))"
proof -
  note z = totals_of_fresh [OF assms(3)]
  from run_trades_conserve [OF assms(1,2,4,5)] obtain row where
    row: "select_portfolio d' user_id = Some row" "p_id row = p_id row0"
    and near: "\<bar>(p_cash row + buy_totals d' (p_id row0) - sell_totals d' (p_id row0)) -
             (p_cash row0 + buy_totals d0 (p_id row0) - sell_totals d0 (p_id row0))\<bar>
             \<le> int (length ts)"
    and exact: "(\<forall>t\<in>set ts. whole_cents (t_price t)) \<longrightarrow>
              p_cash row + buy_totals d' (p_id row0) - sell_totals d' (p_id row0) =
              p_cash row0 + buy_totals d0 (p_id row0) - sell_totals d0 (p_id row0)"
    unfolding assms(6) by blast
  from near z have "\<bar>p_cash row -
      (p_cash row0 - buy_totals d' (p_id row0) + sell_totals d' (p_id row0))\<bar>
      \<le> int (length ts)"
    by simp
  moreover from exact z have "(\<forall>t\<in>set ts. whole_cents (t_price t)) \<longrightarrow>
      p_cash row = p_cash row0 - buy_totals d' (p_id row0) + sell_totals d' (p_id row0)"
    by auto
  ultimately show ?thesis using row by blast
qed

theorem cash_conservation_witness:
  "select_portfolio (registered_db 7) 7 =
     Some \<lparr>p_id = 1, p_user_id = 7, p_cash = 10000000, p_total_value = 10000000\<rparr> \<and>
   \<not> portfolio_exists (registered_db 7) 0 \<and>
   orders_tbl (registered_db 7) = [] \<and>
   list_all succeeded (fst (run_trades (registered_db 7) two_trades)) \<and>
   (\<exists>row. select_portfolio (snd (run_trades (registered_db 7) two_trades)) 7 = Some row \<and>
      p_cash row =
        10000000 - buy_totals (snd (run_trades (registered_db 7) two_trades)) 1
          + sell_totals (snd (run_trades (registered_db 7) two_trades)) 1)"
proof -
  let ?row0 = "\<lparr>p_id = 1, p_user_id = 7, p_cash = 10000000, p_total_value = 10000000\<rparr>"
  have row0: "select_portfolio (registered_db 7) 7 = Some ?row0"
    by (simp add: registered_db_def select_portfolio_def)
  have ids: "\<not> portfolio_exists (registered_db 7) 0"
    by (simp add: registered_db_def portfolio_exists_def)
  have none: "orders_tbl (registered_db 7) = []"
    by (simp add: registered_db_def)
  then have fresh: "filter (\<lambda>r. o_portfolio_id r = p_id ?row0) (orders_tbl (registered_db 7)) = []"
    by simp
  have users: "\<forall>t\<in>set two_trades. t_user_id t = 7"
    by (simp add: two_trades_def)
  have ok: "list_all succeeded (fst (run_trades (registered_db 7) two_trades))"
    by (simp add: two_trades_result succeeded_def)
  have cents: "\<forall>t\<in>set two_trades. whole_cents (t_price t)"
    by (simp add: two_trades_def whole_cents_def)
  from cash_conservation [OF row0 ids fresh users ok refl] cents
  have "\<exists>row. select_portfolio (snd (run_trades (registered_db 7) two_trades)) 7 = Some row \<and>
      p_cash row =
        10000000 - buy_totals (snd (run_trades (registered_db 7) two_trades)) 1
          + sell_totals (snd (run_trades (registered_db 7) two_trades)) 1"
    by auto
  with row0 ids none ok show ?thesis by blast
qed

end
